theory Spec2Isabelle
  imports Complex_Main
begin

section \<open>The transcript service of \<^verbatim>\<open>src/main.py\<close>\<close>

text \<open>
  The module defines two request handlers, \<^verbatim>\<open>get_transcript\<close> and
  \<^verbatim>\<open>list_transcripts\<close>, on top of the library class
  \<^verbatim>\<open>YouTubeTranscriptApi\<close>. The handlers keep no state of their own; each one
  calls the library, and either returns a dictionary or raises.

  The embedding makes three things explicit that Python leaves implicit:
  \<^item> an exception raised by the library is a value \<open>Inl e\<close> of a sum type;
  \<^item> the way a handler ends is a value of type \<open>outcome\<close>: it returns a dictionary,
    it raises \<^verbatim>\<open>HTTPException(status_code, detail)\<close>, or another exception
    leaves the handler body;
  \<^item> every call of the library is recorded, in the order of issue, in a list that the
    handler returns next to its outcome.

  The handlers are given first without their \<^verbatim>\<open>logger\<close> statements, as
  functions of the request and of the library. The state of the running process, which
  the \<^verbatim>\<open>logger\<close> statements write, is added for \<^verbatim>\<open>get_transcript\<close> in
  \<open>get_transcript_st\<close> below.
\<close>

subsection \<open>Exceptions of the library\<close>

text \<open>
  \<^verbatim>\<open>NoTranscriptFound\<close> and \<^verbatim>\<open>TranscriptsDisabled\<close> are the two classes the
  module imports and names in its \<^verbatim>\<open>except\<close> clauses; \<open>OtherException\<close> stands
  for every other subclass of \<^verbatim>\<open>Exception\<close>. Each carries the text that
  \<^verbatim>\<open>str(e)\<close> gives.
\<close>

datatype exn =
    NoTranscriptFound string
  | TranscriptsDisabled string
  | OtherException string

fun str :: "exn \<Rightarrow> string" where
  "str (NoTranscriptFound m) = m"
| "str (TranscriptsDisabled m) = m"
| "str (OtherException m) = m"

subsection \<open>Data of the library\<close>

text \<open>
  One element of the iterable that \<^verbatim>\<open>YouTubeTranscriptApi.list_transcripts\<close>
  gives; the handlers read these four attributes.
\<close>

record transcript =
  language :: string
  language_code :: string
  is_generated :: bool
  is_translatable :: bool

text \<open>
  The library itself is not part of the module. It is a parameter of the handlers: two
  functions that give, for the arguments of a call, either the exception raised or the
  value returned. The elements of a fetched transcript are never inspected by the module,
  so their type \<open>'seg\<close> is left open.
\<close>

record 'seg YouTubeTranscriptApi =
  api_get_transcript :: "string \<Rightarrow> string list \<Rightarrow> exn + 'seg list"
  api_list_transcripts :: "string \<Rightarrow> exn + transcript list"

datatype call =
    CallGetTranscript string "string list"
  | CallListTranscripts string

text \<open>The two library calls of the module, each with the record of its own issue.\<close>

definition YouTubeTranscriptApi_get_transcript ::
  "'seg YouTubeTranscriptApi \<Rightarrow> string \<Rightarrow> string list \<Rightarrow> (exn + 'seg list) \<times> call list" where
  "YouTubeTranscriptApi_get_transcript api video_id languages =
     (api_get_transcript api video_id languages, [CallGetTranscript video_id languages])"

definition YouTubeTranscriptApi_list_transcripts ::
  "'seg YouTubeTranscriptApi \<Rightarrow> string \<Rightarrow> (exn + transcript list) \<times> call list" where
  "YouTubeTranscriptApi_list_transcripts api video_id =
     (api_list_transcripts api video_id, [CallListTranscripts video_id])"

subsection \<open>Values and outcomes of a handler\<close>

text \<open>
  The Python values a handler builds: strings, booleans, lists and dictionaries (with
  their keys in insertion order), and the elements of a fetched transcript as the library
  gave them.
\<close>

datatype 'seg pyval =
    PStr string
  | PBool bool
  | PList "'seg pyval list"
  | PDict "(string \<times> 'seg pyval) list"
  | PExt 'seg

text \<open>
  \<open>Returned v\<close>: the handler returned \<open>v\<close>, which the web framework sends with status
  200. \<open>HTTPException s d\<close>: the handler raised
  \<^verbatim>\<open>HTTPException(status_code=s, detail=d)\<close>, which the framework sends as status
  \<open>s\<close> with the body \<^verbatim>\<open>{"detail": d}\<close>. \<open>Propagated e\<close>: the exception \<open>e\<close> of
  the library left the handler body without being caught there.
\<close>

datatype 'seg outcome =
    Returned "'seg pyval"
  | HTTPException nat string
  | Propagated exn

subsection \<open>String helpers\<close>

text \<open>\<^verbatim>\<open>sep.join(xs)\<close> of Python.\<close>

fun join :: "string \<Rightarrow> string list \<Rightarrow> string" where
  "join sep [] = []"
| "join sep [x] = x"
| "join sep (x # y # ys) = x @ sep @ join sep (y # ys)"

text \<open>The apostrophe of the message texts.\<close>

definition apostrophe :: string where
  "apostrophe = [CHR 0x27]"

definition disabled_detail :: "string \<Rightarrow> string" where
  "disabled_detail video_id =
     ''Transcripts are disabled for video '' @ apostrophe @ video_id @ apostrophe @ ''.''"

definition unexpected_detail :: "exn \<Rightarrow> string" where
  "unexpected_detail e = ''An unexpected error occurred: '' @ str e"

subsection \<open>The handlers\<close>

text \<open>
  \<^verbatim>\<open>get_transcript\<close>, lines 74 to 108. The second library call sits inside the
  \<^verbatim>\<open>except NoTranscriptFound\<close> clause. An exception raised inside an
  \<^verbatim>\<open>except\<close> clause is not offered to the later clauses of the same
  \<^verbatim>\<open>try\<close> statement, so there only the inner
  \<^verbatim>\<open>except TranscriptsDisabled\<close> can catch what the listing raises.
\<close>

definition get_transcript ::
  "'seg YouTubeTranscriptApi \<Rightarrow> string \<Rightarrow> string list \<Rightarrow> 'seg outcome \<times> call list" where
  "get_transcript api video_id languages =
     (case YouTubeTranscriptApi_get_transcript api video_id languages of
        (Inr transcript_list, c1) \<Rightarrow>
          (Returned (PDict [(''video_id'', PStr video_id),
                            (''transcript'', PList (map PExt transcript_list))]), c1)
      | (Inl (NoTranscriptFound _), c1) \<Rightarrow>
          (case YouTubeTranscriptApi_list_transcripts api video_id of
             (Inr available_transcripts, c2) \<Rightarrow>
               (let available_codes = map language_code available_transcripts;
                    error_detail =
                      ''Could not find a transcript in the requested languages: ''
                        @ join '', '' languages @ ''. ''
                        @ ''Available languages are: '' @ join '', '' available_codes
                in (HTTPException 404 error_detail, c1 @ c2))
           | (Inl (TranscriptsDisabled _), c2) \<Rightarrow>
               (HTTPException 403 (disabled_detail video_id), c1 @ c2)
           | (Inl e, c2) \<Rightarrow> (Propagated e, c1 @ c2))
      | (Inl (TranscriptsDisabled _), c1) \<Rightarrow>
          (HTTPException 403 (disabled_detail video_id), c1)
      | (Inl e, c1) \<Rightarrow> (HTTPException 500 (unexpected_detail e), c1))"

text \<open>\<^verbatim>\<open>list_transcripts\<close>, lines 110 to 136.\<close>

definition format_transcript :: "transcript \<Rightarrow> 'seg pyval" where
  "format_transcript t =
     PDict [(''language'', PStr (language t)),
            (''language_code'', PStr (language_code t)),
            (''is_generated'', PBool (is_generated t)),
            (''is_translatable'', PBool (is_translatable t))]"

definition list_transcripts ::
  "'seg YouTubeTranscriptApi \<Rightarrow> string \<Rightarrow> 'seg outcome \<times> call list" where
  "list_transcripts api video_id =
     (case YouTubeTranscriptApi_list_transcripts api video_id of
        (Inr transcript_list, c1) \<Rightarrow>
          (let formatted_list = map format_transcript transcript_list
           in (Returned (PDict [(''video_id'', PStr video_id),
                                (''available_transcripts'', PList formatted_list)]), c1))
      | (Inl (TranscriptsDisabled _), c1) \<Rightarrow>
          (HTTPException 403 (disabled_detail video_id), c1)
      | (Inl e, c1) \<Rightarrow> (HTTPException 500 (unexpected_detail e), c1))"

text \<open>
  Both handlers give a pair: \<open>fst\<close> is the outcome of the run, \<open>snd\<close> the library
  calls it issued, in order.
\<close>

subsection \<open>The handler in the running process\<close>

text \<open>
  The module keeps one object between requests, the logger \<^verbatim>\<open>api_logger\<close>
  (line 45), whose handlers write every record to the console and to
  \<^verbatim>\<open>api.log\<close>. The state of the process is therefore the sequence of records
  written so far; whatever else the process holds is the extension part of the record,
  which the module has no statement to read or write.
\<close>

datatype level = INFO | WARNING | ERROR | CRITICAL

record log_record =
  levelname :: level
  message :: string
  exc_info :: bool

record process =
  api_log :: "log_record list"

text \<open>
  \<^verbatim>\<open>logger.info(msg)\<close>, \<^verbatim>\<open>logger.warning(msg)\<close>,
  \<^verbatim>\<open>logger.error(msg)\<close> and \<^verbatim>\<open>logger.critical(msg, exc_info=True)\<close>.
\<close>

definition logger_log ::
  "level \<Rightarrow> string \<Rightarrow> bool \<Rightarrow> 'z process_scheme \<Rightarrow> 'z process_scheme" where
  "logger_log lv msg exc s =
     s\<lparr>api_log := api_log s @ [\<lparr>levelname = lv, message = msg, exc_info = exc\<rparr>]\<rparr>"

text \<open>
  \<^verbatim>\<open>get_transcript\<close>, lines 74 to 108, statement by statement, with the state of
  the process passed through. The text that Python's formatting of a list of strings
  gives (\<^verbatim>\<open>{languages}\<close> in line 84) belongs to the language, not to the module;
  it is the parameter \<open>list_str\<close>.
\<close>

definition get_transcript_st ::
  "(string list \<Rightarrow> string) \<Rightarrow> 'seg YouTubeTranscriptApi \<Rightarrow> string \<Rightarrow> string list \<Rightarrow>
   'z process_scheme \<Rightarrow> ('seg outcome \<times> call list) \<times> 'z process_scheme" where
  "get_transcript_st list_str api video_id languages s0 =
     (let s1 = logger_log INFO
                 (''Received request for transcript of video_id: ''
                    @ apostrophe @ video_id @ apostrophe
                    @ '' with languages: '' @ list_str languages) False s0
      in case YouTubeTranscriptApi_get_transcript api video_id languages of
        (Inr transcript_list, c1) \<Rightarrow>
          (let s2 = logger_log INFO
                      (''Successfully fetched transcript for video_id: ''
                         @ apostrophe @ video_id @ apostrophe) False s1
           in ((Returned (PDict [(''video_id'', PStr video_id),
                                 (''transcript'', PList (map PExt transcript_list))]), c1),
               s2))
      | (Inl (NoTranscriptFound _), c1) \<Rightarrow>
          (let s2 = logger_log WARNING
                      (''No transcript found for video_id: ''
                         @ apostrophe @ video_id @ apostrophe
                         @ '' in languages: '' @ join '', '' languages) False s1
           in case YouTubeTranscriptApi_list_transcripts api video_id of
             (Inr available_transcripts, c2) \<Rightarrow>
               (let available_codes = map language_code available_transcripts;
                    error_detail =
                      ''Could not find a transcript in the requested languages: ''
                        @ join '', '' languages @ ''. ''
                        @ ''Available languages are: '' @ join '', '' available_codes;
                    s3 = logger_log INFO
                           (''Found available transcripts for video_id: ''
                              @ apostrophe @ video_id @ apostrophe
                              @ '': '' @ join '', '' available_codes) False s2
                in ((HTTPException 404 error_detail, c1 @ c2), s3))
           | (Inl (TranscriptsDisabled _), c2) \<Rightarrow>
               (let s3 = logger_log ERROR (disabled_detail video_id) False s2
                in ((HTTPException 403 (disabled_detail video_id), c1 @ c2), s3))
           | (Inl e, c2) \<Rightarrow> ((Propagated e, c1 @ c2), s2))
      | (Inl (TranscriptsDisabled _), c1) \<Rightarrow>
          (let s2 = logger_log ERROR (disabled_detail video_id) False s1
           in ((HTTPException 403 (disabled_detail video_id), c1), s2))
      | (Inl e, c1) \<Rightarrow>
          (let s2 = logger_log CRITICAL
                      (''An unexpected error occurred for video_id ''
                         @ apostrophe @ video_id @ apostrophe @ '': '' @ str e) True s1
           in ((HTTPException 500 (unexpected_detail e), c1), s2)))"

subsection \<open>Sample libraries\<close>

text \<open>
  Concrete libraries on which the handlers are run below. A fetched element has the three
  fields the library documents (text, start, duration); times are in seconds.
\<close>

record segment =
  seg_text :: string
  seg_start :: real
  seg_duration :: real

definition sample_segments :: "segment list" where
  "sample_segments =
     [\<lparr>seg_text = ''Hello'', seg_start = 0, seg_duration = 3 / 2\<rparr>,
      \<lparr>seg_text = ''world'', seg_start = 3 / 2, seg_duration = 2\<rparr>]"

definition sample_transcripts :: "transcript list" where
  "sample_transcripts =
     [\<lparr>language = ''English'', language_code = ''en'',
       is_generated = False, is_translatable = True\<rparr>,
      \<lparr>language = ''Spanish'', language_code = ''es'',
       is_generated = True, is_translatable = False\<rparr>]"

text \<open>A video with the two sample transcripts, fetched whatever language is asked.\<close>

definition api_available :: "segment YouTubeTranscriptApi" where
  "api_available =
     \<lparr>api_get_transcript = (\<lambda>video_id languages. Inr sample_segments),
      api_list_transcripts = (\<lambda>video_id. Inr sample_transcripts)\<rparr>"

text \<open>
  A library that knows one video only, and fails on every other identifier.
\<close>

definition api_catalogue :: "segment YouTubeTranscriptApi" where
  "api_catalogue =
     \<lparr>api_get_transcript = (\<lambda>video_id languages.
        if video_id = ''dQw4w9WgXcQ'' then Inr sample_segments
        else Inl (OtherException ''invalid video id'')),
      api_list_transcripts = (\<lambda>video_id.
        if video_id = ''dQw4w9WgXcQ'' then Inr sample_transcripts
        else Inl (OtherException ''invalid video id''))\<rparr>"

text \<open>The requested languages are missing; the video has the two sample transcripts.\<close>

definition api_other_languages :: "segment YouTubeTranscriptApi" where
  "api_other_languages =
     \<lparr>api_get_transcript = (\<lambda>video_id languages. Inl (NoTranscriptFound ''no transcript'')),
      api_list_transcripts = (\<lambda>video_id. Inr sample_transcripts)\<rparr>"

text \<open>The requested languages are missing, and the video has no transcript at all.\<close>

definition api_no_transcripts :: "segment YouTubeTranscriptApi" where
  "api_no_transcripts =
     \<lparr>api_get_transcript = (\<lambda>video_id languages. Inl (NoTranscriptFound ''no transcript'')),
      api_list_transcripts = (\<lambda>video_id. Inr [])\<rparr>"

text \<open>Transcripts are disabled, and both calls say so.\<close>

definition api_disabled :: "segment YouTubeTranscriptApi" where
  "api_disabled =
     \<lparr>api_get_transcript = (\<lambda>video_id languages. Inl (TranscriptsDisabled ''disabled'')),
      api_list_transcripts = (\<lambda>video_id. Inl (TranscriptsDisabled ''disabled''))\<rparr>"

text \<open>The fetch finds no transcript, and the listing reports transcripts disabled.\<close>

definition api_disabled_on_listing :: "segment YouTubeTranscriptApi" where
  "api_disabled_on_listing =
     \<lparr>api_get_transcript = (\<lambda>video_id languages. Inl (NoTranscriptFound ''no transcript'')),
      api_list_transcripts = (\<lambda>video_id. Inl (TranscriptsDisabled ''disabled''))\<rparr>"

text \<open>The fetch finds no transcript, and the listing then loses its connection.\<close>

definition api_listing_fails :: "segment YouTubeTranscriptApi" where
  "api_listing_fails =
     \<lparr>api_get_transcript = (\<lambda>video_id languages. Inl (NoTranscriptFound ''no transcript'')),
      api_list_transcripts = (\<lambda>video_id. Inl (OtherException ''connection reset''))\<rparr>"

text \<open>The fetch finds no transcript, and the listing is then refused by the platform.\<close>

definition api_listing_blocked :: "segment YouTubeTranscriptApi" where
  "api_listing_blocked =
     \<lparr>api_get_transcript = (\<lambda>video_id languages. Inl (NoTranscriptFound ''no transcript'')),
      api_list_transcripts = (\<lambda>video_id. Inl (OtherException ''too many requests''))\<rparr>"

text \<open>
  The requested languages are missing; the video has a manual and an automatically
  generated transcript, both in English.
\<close>

definition api_two_english :: "segment YouTubeTranscriptApi" where
  "api_two_english =
     \<lparr>api_get_transcript = (\<lambda>video_id languages. Inl (NoTranscriptFound ''no transcript'')),
      api_list_transcripts = (\<lambda>video_id. Inr
        [\<lparr>language = ''English'', language_code = ''en'',
          is_generated = False, is_translatable = True\<rparr>,
         \<lparr>language = ''English (auto-generated)'', language_code = ''en'',
          is_generated = True, is_translatable = True\<rparr>])\<rparr>"

text \<open>
  Python's text of a list of strings, for strings that hold no quote, no backslash and
  no unprintable character: \<^verbatim>\<open>['en', 'es']\<close>.
\<close>

definition list_str_plain :: "string list \<Rightarrow> string" where
  "list_str_plain xs =
     ''['' @ join '', '' (map (\<lambda>x. apostrophe @ x @ apostrophe) xs) @ '']''"

section \<open>Properties\<close>

subsection \<open>The branches of the handlers\<close>

text \<open>One lemma for each way through \<open>get_transcript\<close> and \<open>list_transcripts\<close>.\<close>

lemma join_Cons: "join sep (x # xs) = x @ concat (map (\<lambda>y. sep @ y) xs)"
  by (induction xs arbitrary: x) simp_all

lemma get_transcript_fetched:
  assumes "api_get_transcript api video_id languages = Inr transcript_list"
  shows "get_transcript api video_id languages =
         (Returned (PDict [(''video_id'', PStr video_id),
                           (''transcript'', PList (map PExt transcript_list))]),
          [CallGetTranscript video_id languages])"
  using assms by (simp add: get_transcript_def YouTubeTranscriptApi_get_transcript_def)

lemma get_transcript_listed:
  assumes "api_get_transcript api video_id languages = Inl (NoTranscriptFound m)"
    and "api_list_transcripts api video_id = Inr ts"
  shows "get_transcript api video_id languages =
         (HTTPException 404
            (''Could not find a transcript in the requested languages: ''
               @ join '', '' languages
               @ ''. Available languages are: '' @ join '', '' (map language_code ts)),
          [CallGetTranscript video_id languages, CallListTranscripts video_id])"
  using assms
  by (simp add: get_transcript_def YouTubeTranscriptApi_get_transcript_def
      YouTubeTranscriptApi_list_transcripts_def)

lemma get_transcript_listing_disabled:
  assumes "api_get_transcript api video_id languages = Inl (NoTranscriptFound m)"
    and "api_list_transcripts api video_id = Inl (TranscriptsDisabled m')"
  shows "get_transcript api video_id languages =
         (HTTPException 403 (disabled_detail video_id),
          [CallGetTranscript video_id languages, CallListTranscripts video_id])"
  using assms
  by (simp add: get_transcript_def YouTubeTranscriptApi_get_transcript_def
      YouTubeTranscriptApi_list_transcripts_def)

lemma get_transcript_listing_raises:
  assumes "api_get_transcript api video_id languages = Inl (NoTranscriptFound m)"
    and "api_list_transcripts api video_id = Inl e"
    and "\<And>m'. e \<noteq> TranscriptsDisabled m'"
  shows "get_transcript api video_id languages =
         (Propagated e,
          [CallGetTranscript video_id languages, CallListTranscripts video_id])"
  using assms
  by (cases e)
     (auto simp add: get_transcript_def YouTubeTranscriptApi_get_transcript_def
      YouTubeTranscriptApi_list_transcripts_def)

lemma get_transcript_disabled:
  assumes "api_get_transcript api video_id languages = Inl (TranscriptsDisabled m)"
  shows "get_transcript api video_id languages =
         (HTTPException 403 (disabled_detail video_id),
          [CallGetTranscript video_id languages])"
  using assms by (simp add: get_transcript_def YouTubeTranscriptApi_get_transcript_def)

lemma get_transcript_unexpected:
  assumes "api_get_transcript api video_id languages = Inl (OtherException m)"
  shows "get_transcript api video_id languages =
         (HTTPException 500 (''An unexpected error occurred: '' @ m),
          [CallGetTranscript video_id languages])"
  using assms
  by (simp add: get_transcript_def YouTubeTranscriptApi_get_transcript_def
      unexpected_detail_def)

lemma list_transcripts_listed:
  assumes "api_list_transcripts api video_id = Inr ts"
  shows "list_transcripts api video_id =
         (Returned (PDict [(''video_id'', PStr video_id),
                           (''available_transcripts'', PList (map format_transcript ts))]),
          [CallListTranscripts video_id])"
  using assms by (simp add: list_transcripts_def YouTubeTranscriptApi_list_transcripts_def)

lemma list_transcripts_disabled:
  assumes "api_list_transcripts api video_id = Inl (TranscriptsDisabled m)"
  shows "list_transcripts api video_id =
         (HTTPException 403 (disabled_detail video_id), [CallListTranscripts video_id])"
  using assms by (simp add: list_transcripts_def YouTubeTranscriptApi_list_transcripts_def)

lemma list_transcripts_unexpected:
  assumes "api_list_transcripts api video_id = Inl e"
    and "\<And>m. e \<noteq> TranscriptsDisabled m"
  shows "list_transcripts api video_id =
         (HTTPException 500 (''An unexpected error occurred: '' @ str e),
          [CallListTranscripts video_id])"
  using assms
  by (cases e)
     (auto simp add: list_transcripts_def YouTubeTranscriptApi_list_transcripts_def
      unexpected_detail_def)

text \<open>
  The cases of a fetch and of a listing, as the \<^verbatim>\<open>except\<close> clauses tell them
  apart.
\<close>

lemma fetch_cases:
  obtains (fetched) segs where "api_get_transcript api video_id languages = Inr segs"
  | (not_found) m where "api_get_transcript api video_id languages = Inl (NoTranscriptFound m)"
  | (disabled) m where "api_get_transcript api video_id languages = Inl (TranscriptsDisabled m)"
  | (unexpected) m where "api_get_transcript api video_id languages = Inl (OtherException m)"
proof (cases "api_get_transcript api video_id languages")
  case (Inl e)
  then show ?thesis
    using not_found disabled unexpected by (cases e) auto
next
  case (Inr segs)
  then show ?thesis using fetched by auto
qed

lemma listing_cases:
  obtains (listed) ts where "api_list_transcripts api video_id = Inr ts"
  | (disabled) m where "api_list_transcripts api video_id = Inl (TranscriptsDisabled m)"
  | (raised) e where "api_list_transcripts api video_id = Inl e"
      and "\<And>m. e \<noteq> TranscriptsDisabled m"
proof (cases "api_list_transcripts api video_id")
  case (Inl e)
  then show ?thesis
    using disabled raised by (cases e) auto
next
  case (Inr ts)
  then show ?thesis using listed by auto
qed

text \<open>
  \<open>list_transcripts\<close> ends with a returned dictionary or with an
  \<^verbatim>\<open>HTTPException\<close>, whatever the listing does.
\<close>

lemma list_transcripts_never_propagates:
  "fst (list_transcripts api video_id) \<noteq> Propagated e"
  by (cases rule: listing_cases [of api video_id])
     (simp_all add: list_transcripts_listed list_transcripts_disabled
      list_transcripts_unexpected)

text \<open>
  \<open>get_transcript\<close> lets an exception through in one situation only: the fetch raised
  \<^verbatim>\<open>NoTranscriptFound\<close> and the listing raised something other than
  \<^verbatim>\<open>TranscriptsDisabled\<close>.
\<close>

lemma get_transcript_propagates_iff:
  "fst (get_transcript api video_id languages) = Propagated e \<longleftrightarrow>
   (\<exists>m. api_get_transcript api video_id languages = Inl (NoTranscriptFound m))
   \<and> api_list_transcripts api video_id = Inl e
   \<and> (\<forall>m. e \<noteq> TranscriptsDisabled m)"
proof (cases rule: fetch_cases [of api video_id languages])
  case (not_found m)
  show ?thesis
  proof (cases rule: listing_cases [of api video_id])
    case (listed ts)
    then show ?thesis using not_found by (simp add: get_transcript_listed)
  next
    case (disabled m')
    then show ?thesis using not_found by (auto simp add: get_transcript_listing_disabled)
  next
    case (raised e')
    then show ?thesis using not_found by (auto simp add: get_transcript_listing_raises)
  qed
qed (simp_all add: get_transcript_fetched get_transcript_disabled get_transcript_unexpected)

subsection \<open>A successful fetch\<close>

text \<open>
  Claim C4. Whenever the fetch succeeds with a sequence of segments, \<open>get_transcript\<close>
  returns (status 200) the dictionary with the two keys \<^verbatim>\<open>video_id\<close> and
  \<^verbatim>\<open>transcript\<close>, in this order; the first holds the identifier as given, the
  second the list of the segments, each one as the library gave it and in the library's
  order.
\<close>

theorem get_transcript_success_body:
  assumes "api_get_transcript api video_id languages = Inr segments"
  shows "fst (get_transcript api video_id languages) =
         Returned (PDict [(''video_id'', PStr video_id),
                          (''transcript'', PList (map PExt segments))])"
  using assms by (simp add: get_transcript_fetched)

theorem get_transcript_success_body_witness:
  "api_get_transcript api_available ''dQw4w9WgXcQ'' [''en'', ''es''] = Inr sample_segments
   \<and> fst (get_transcript api_available ''dQw4w9WgXcQ'' [''en'', ''es'']) =
       Returned (PDict [(''video_id'', PStr ''dQw4w9WgXcQ''),
                        (''transcript'', PList (map PExt sample_segments))])"
proof -
  have h: "api_get_transcript api_available ''dQw4w9WgXcQ'' [''en'', ''es'']
           = Inr sample_segments"
    by (simp add: api_available_def)
  from get_transcript_success_body [OF h] h show ?thesis by simp
qed

subsection \<open>The language preference reaches the library unchanged\<close>

text \<open>
  Claim C6. Whatever the identifier and the language preference, the library calls of
  \<open>get_transcript\<close> are the fetch alone or the fetch followed by a listing, and that one
  fetch call carries the identifier and the language list exactly as the handler received
  them: the same list, so the same elements in the same order, duplicates included.
\<close>

theorem get_transcript_passes_languages:
  "snd (get_transcript api video_id languages) = [CallGetTranscript video_id languages]
   \<or> snd (get_transcript api video_id languages) =
       [CallGetTranscript video_id languages, CallListTranscripts video_id]"
proof (cases rule: fetch_cases [of api video_id languages])
  case (not_found m)
  then show ?thesis
    by (cases rule: listing_cases [of api video_id])
       (simp_all add: get_transcript_listed get_transcript_listing_disabled
        get_transcript_listing_raises)
qed (simp_all add: get_transcript_fetched get_transcript_disabled get_transcript_unexpected)

subsection \<open>At most two library calls\<close>

text \<open>
  Claim C8. A run of \<open>get_transcript\<close> issues at most two library calls. The first is
  always the fetch, and it is the only fetch. A second call, if there is one, is the
  listing for the same identifier, and it is issued exactly when the fetch raised
  \<^verbatim>\<open>NoTranscriptFound\<close>.
\<close>

theorem get_transcript_call_bound:
  "length (snd (get_transcript api video_id languages)) \<le> 2
   \<and> (\<exists>rest. snd (get_transcript api video_id languages) =
                CallGetTranscript video_id languages # rest
          \<and> (rest = [] \<or> rest = [CallListTranscripts video_id])
          \<and> (rest = [CallListTranscripts video_id] \<longleftrightarrow>
              (\<exists>m. api_get_transcript api video_id languages = Inl (NoTranscriptFound m))))"
proof (cases rule: fetch_cases [of api video_id languages])
  case (not_found m)
  then show ?thesis
    by (cases rule: listing_cases [of api video_id])
       (simp_all add: get_transcript_listed get_transcript_listing_disabled
        get_transcript_listing_raises)
qed (simp_all add: get_transcript_fetched get_transcript_disabled get_transcript_unexpected)

theorem get_transcript_call_bound_witness:
  "length (snd (get_transcript api_other_languages ''dQw4w9WgXcQ'' [''de''])) \<le> 2
   \<and> snd (get_transcript api_other_languages ''dQw4w9WgXcQ'' [''de'']) =
       [CallGetTranscript ''dQw4w9WgXcQ'' [''de''], CallListTranscripts ''dQw4w9WgXcQ'']
   \<and> snd (get_transcript api_available ''dQw4w9WgXcQ'' [''de'']) =
       [CallGetTranscript ''dQw4w9WgXcQ'' [''de'']]"
  using get_transcript_call_bound [of api_other_languages "''dQw4w9WgXcQ''" "[''de'']"]
    get_transcript_call_bound [of api_available "''dQw4w9WgXcQ''" "[''de'']"]
  by (auto simp add: api_other_languages_def api_available_def)

subsection \<open>Repeating a request\<close>

text \<open>
  \<open>get_transcript\<close> reads the library at the arguments of the request and nowhere
  else.
\<close>

lemma get_transcript_same_answers:
  assumes "api_get_transcript api1 video_id languages =
           api_get_transcript api2 video_id languages"
    and "api_list_transcripts api1 video_id = api_list_transcripts api2 video_id"
  shows "get_transcript api1 video_id languages = get_transcript api2 video_id languages"
  unfolding get_transcript_def YouTubeTranscriptApi_get_transcript_def
    YouTubeTranscriptApi_list_transcripts_def assms
  by (rule refl)

text \<open>
  In the running process the handler writes the state: every run keeps the records
  already in the log, appends at least one, and leaves the rest of the process as it
  was.
\<close>

lemma get_transcript_st_writes_log:
  "length (api_log s) <
     length (api_log (snd (get_transcript_st list_str api video_id languages s)))
   \<and> take (length (api_log s))
        (api_log (snd (get_transcript_st list_str api video_id languages s))) = api_log s
   \<and> process.more (snd (get_transcript_st list_str api video_id languages s)) =
     process.more s"
proof (cases rule: fetch_cases [of api video_id languages])
  case (not_found m)
  show ?thesis
  proof (cases rule: listing_cases [of api video_id])
    case (listed ts)
    with not_found show ?thesis
      by (simp add: get_transcript_st_def logger_log_def Let_def
        YouTubeTranscriptApi_get_transcript_def YouTubeTranscriptApi_list_transcripts_def)
  next
    case (disabled m')
    with not_found show ?thesis
      by (simp add: get_transcript_st_def logger_log_def Let_def
        YouTubeTranscriptApi_get_transcript_def YouTubeTranscriptApi_list_transcripts_def)
  next
    case (raised e)
    with not_found show ?thesis
      by (cases e) (auto simp add: get_transcript_st_def logger_log_def Let_def
        YouTubeTranscriptApi_get_transcript_def YouTubeTranscriptApi_list_transcripts_def)
  qed
next
  case (fetched segs)
  then show ?thesis
    by (simp add: get_transcript_st_def logger_log_def Let_def
        YouTubeTranscriptApi_get_transcript_def)
next
  case (disabled m)
  then show ?thesis
    by (simp add: get_transcript_st_def logger_log_def Let_def
        YouTubeTranscriptApi_get_transcript_def)
next
  case (unexpected m)
  then show ?thesis
    by (simp add: get_transcript_st_def logger_log_def Let_def
        YouTubeTranscriptApi_get_transcript_def)
qed

text \<open>
  The outcome and the library calls of a run in the process are those of
  \<open>get_transcript\<close>, whatever the state the run starts in.
\<close>

lemma get_transcript_st_outcome:
  "fst (get_transcript_st list_str api video_id languages s) =
   get_transcript api video_id languages"
proof (cases rule: fetch_cases [of api video_id languages])
  case (not_found m)
  show ?thesis
  proof (cases rule: listing_cases [of api video_id])
    case (listed ts)
    with not_found show ?thesis
      by (simp add: get_transcript_listed get_transcript_st_def Let_def
        YouTubeTranscriptApi_get_transcript_def YouTubeTranscriptApi_list_transcripts_def)
  next
    case (disabled m')
    with not_found show ?thesis
      by (simp add: get_transcript_listing_disabled get_transcript_st_def Let_def
        YouTubeTranscriptApi_get_transcript_def YouTubeTranscriptApi_list_transcripts_def)
  next
    case (raised e)
    with not_found show ?thesis
      by (cases e) (auto simp add: get_transcript_listing_raises get_transcript_st_def Let_def
        YouTubeTranscriptApi_get_transcript_def YouTubeTranscriptApi_list_transcripts_def)
  qed
next
  case (fetched segs)
  then show ?thesis
    by (simp add: get_transcript_fetched get_transcript_st_def Let_def
        YouTubeTranscriptApi_get_transcript_def)
next
  case (disabled m)
  then show ?thesis
    by (simp add: get_transcript_disabled get_transcript_st_def Let_def
        YouTubeTranscriptApi_get_transcript_def)
next
  case (unexpected m)
  then show ?thesis
    by (simp add: get_transcript_unexpected get_transcript_st_def Let_def
        YouTubeTranscriptApi_get_transcript_def unexpected_detail_def)
qed

text \<open>
  Claim C9. Take two executions of \<open>get_transcript\<close> in the process, on the same
  identifier and the same language preference, in which the library answers the fetch in
  the same way and the listing in the same way. The executions may start in any two
  states of the process, in particular the second in the state that the first has left.
  Then both end in the same outcome (the same status and the same body) and issue the
  same calls: nothing that a request writes to the state of the process is read by a
  later one.
\<close>

theorem get_transcript_st_repeatable:
  fixes s s' :: "'z process_scheme"
  assumes "api_get_transcript api1 video_id languages =
           api_get_transcript api2 video_id languages"
    and "api_list_transcripts api1 video_id = api_list_transcripts api2 video_id"
  shows "fst (get_transcript_st list_str api1 video_id languages s) =
         fst (get_transcript_st list_str api2 video_id languages s')"
  using get_transcript_same_answers [OF assms] by (simp add: get_transcript_st_outcome)

theorem get_transcript_st_repeatable_witness:
  "api_get_transcript api_available ''dQw4w9WgXcQ'' [''en''] =
     api_get_transcript api_catalogue ''dQw4w9WgXcQ'' [''en'']
   \<and> api_list_transcripts api_available ''dQw4w9WgXcQ'' =
     api_list_transcripts api_catalogue ''dQw4w9WgXcQ''
   \<and> snd (get_transcript_st list_str_plain api_available ''dQw4w9WgXcQ'' [''en'']
           \<lparr>api_log = []\<rparr>) \<noteq> \<lparr>api_log = []\<rparr>
   \<and> fst (get_transcript_st list_str_plain api_available ''dQw4w9WgXcQ'' [''en'']
           \<lparr>api_log = []\<rparr>) =
     fst (get_transcript_st list_str_plain api_catalogue ''dQw4w9WgXcQ'' [''en'']
           (snd (get_transcript_st list_str_plain api_available ''dQw4w9WgXcQ'' [''en'']
                   \<lparr>api_log = []\<rparr>)))"
proof -
  have g: "api_get_transcript api_available ''dQw4w9WgXcQ'' [''en''] =
           api_get_transcript api_catalogue ''dQw4w9WgXcQ'' [''en'']"
    by (simp add: api_available_def api_catalogue_def)
  have l: "api_list_transcripts api_available ''dQw4w9WgXcQ'' =
           api_list_transcripts api_catalogue ''dQw4w9WgXcQ''"
    by (simp add: api_available_def api_catalogue_def)
  have w: "snd (get_transcript_st list_str_plain api_available ''dQw4w9WgXcQ'' [''en'']
                 \<lparr>api_log = []\<rparr>) \<noteq> \<lparr>api_log = []\<rparr>"
    by (simp add: get_transcript_st_def logger_log_def Let_def api_available_def
        YouTubeTranscriptApi_get_transcript_def)
  show ?thesis
    by (intro conjI) (rule g, rule l, rule w, rule get_transcript_st_repeatable [OF g l])
qed

subsection \<open>A listing with no transcript\<close>

text \<open>
  Claim C10. Whenever the listing succeeds with no transcript at all,
  \<open>list_transcripts\<close> returns (status 200) the dictionary with \<^verbatim>\<open>video_id\<close> set
  to the identifier and \<^verbatim>\<open>available_transcripts\<close> set to the empty list; it raises
  nothing.
\<close>

theorem list_transcripts_empty:
  assumes "api_list_transcripts api video_id = Inr []"
  shows "fst (list_transcripts api video_id) =
         Returned (PDict [(''video_id'', PStr video_id),
                          (''available_transcripts'', PList [])])"
  using assms by (simp add: list_transcripts_listed)

theorem list_transcripts_empty_witness:
  "api_list_transcripts api_no_transcripts ''dQw4w9WgXcQ'' = Inr []
   \<and> fst (list_transcripts api_no_transcripts ''dQw4w9WgXcQ'') =
       (Returned (PDict [(''video_id'', PStr ''dQw4w9WgXcQ''),
                         (''available_transcripts'', PList [])]) :: segment outcome)"
proof -
  have h: "api_list_transcripts api_no_transcripts ''dQw4w9WgXcQ'' = Inr []"
    by (simp add: api_no_transcripts_def)
  from list_transcripts_empty [OF h] h show ?thesis by simp
qed

subsection \<open>Transcripts disabled\<close>

text \<open>
  Claim C3. Whenever the library reports transcripts disabled for a video, the handler
  raises \<^verbatim>\<open>HTTPException\<close> with status 403 and the detail
  \<^verbatim>\<open>Transcripts are disabled for video '<video_id>'.\<close>, the identifier being the
  one of the request, character by character. This holds in three places: the fetch of
  \<open>get_transcript\<close> reports it; the fetch finds no transcript and the listing that
  follows reports it (403, not 404); the listing of \<open>list_transcripts\<close> reports it.
\<close>

theorem disabled_gives_403:
  "(api_get_transcript api video_id languages = Inl (TranscriptsDisabled m1) \<longrightarrow>
      fst (get_transcript api video_id languages) =
      HTTPException 403
        (''Transcripts are disabled for video '' @ [CHR 0x27] @ video_id @ [CHR 0x27] @ ''.''))
   \<and> (api_get_transcript api video_id languages = Inl (NoTranscriptFound m2)
        \<and> api_list_transcripts api video_id = Inl (TranscriptsDisabled m3) \<longrightarrow>
      fst (get_transcript api video_id languages) =
      HTTPException 403
        (''Transcripts are disabled for video '' @ [CHR 0x27] @ video_id @ [CHR 0x27] @ ''.''))
   \<and> (api_list_transcripts api video_id = Inl (TranscriptsDisabled m3) \<longrightarrow>
      fst (list_transcripts api video_id) =
      HTTPException 403
        (''Transcripts are disabled for video '' @ [CHR 0x27] @ video_id @ [CHR 0x27] @ ''.''))"
  by (simp add: get_transcript_disabled get_transcript_listing_disabled
      list_transcripts_disabled disabled_detail_def apostrophe_def)

theorem disabled_gives_403_witness:
  "fst (get_transcript api_disabled ''dQw4w9WgXcQ'' [''en'']) =
     HTTPException 403
       (''Transcripts are disabled for video '' @ [CHR 0x27] @ ''dQw4w9WgXcQ'' @ [CHR 0x27] @ ''.'')
   \<and> fst (get_transcript api_disabled_on_listing ''dQw4w9WgXcQ'' [''en'']) =
     HTTPException 403
       (''Transcripts are disabled for video '' @ [CHR 0x27] @ ''dQw4w9WgXcQ'' @ [CHR 0x27] @ ''.'')
   \<and> fst (list_transcripts api_disabled ''dQw4w9WgXcQ'') =
     HTTPException 403
       (''Transcripts are disabled for video '' @ [CHR 0x27] @ ''dQw4w9WgXcQ'' @ [CHR 0x27] @ ''.'')"
proof -
  have g: "api_get_transcript api_disabled ''dQw4w9WgXcQ'' [''en'']
           = Inl (TranscriptsDisabled ''disabled'')"
    and l: "api_list_transcripts api_disabled ''dQw4w9WgXcQ''
           = Inl (TranscriptsDisabled ''disabled'')"
    by (simp_all add: api_disabled_def)
  have g': "api_get_transcript api_disabled_on_listing ''dQw4w9WgXcQ'' [''en'']
            = Inl (NoTranscriptFound ''no transcript'')"
    and l': "api_list_transcripts api_disabled_on_listing ''dQw4w9WgXcQ''
            = Inl (TranscriptsDisabled ''disabled'')"
    by (simp_all add: api_disabled_on_listing_def)
  from disabled_gives_403 [of api_disabled "''dQw4w9WgXcQ''" "[''en'']" "''disabled''"
      "''no transcript''" "''disabled''"]
    disabled_gives_403 [of api_disabled_on_listing "''dQw4w9WgXcQ''" "[''en'']"
      "''disabled''" "''no transcript''" "''disabled''"]
    g l g' l'
  show ?thesis by simp
qed

subsection \<open>No transcript in the requested languages\<close>

text \<open>
  Claim C5, as amended. Whenever the fetch finds no transcript in the requested
  languages and the listing succeeds with at least one transcript, \<open>get_transcript\<close>
  raises \<^verbatim>\<open>HTTPException\<close> with status 404, and its detail ends with the clause
  \<^verbatim>\<open>Available languages are:\<close> followed by one entry for each listed
  transcript, its language code: the code of the first transcript, then, for each
  further transcript in the order of the listing, a comma, a space and its code. Equal
  codes are not merged: a code that several transcripts carry stands once for each of
  them.
\<close>

theorem get_transcript_lists_available_codes:
  assumes "api_get_transcript api video_id languages = Inl (NoTranscriptFound m)"
    and "api_list_transcripts api video_id = Inr (t # ts)"
  shows "fst (get_transcript api video_id languages) =
         HTTPException 404
           (''Could not find a transcript in the requested languages: ''
              @ join '', '' languages
              @ ''. Available languages are: ''
              @ language_code t @ concat (map (\<lambda>u. '', '' @ language_code u) ts))"
  using assms by (simp add: get_transcript_listed join_Cons comp_def)

theorem get_transcript_lists_available_codes_witness:
  "api_get_transcript api_other_languages ''dQw4w9WgXcQ'' [''de'', ''fr'']
     = Inl (NoTranscriptFound ''no transcript'')
   \<and> api_list_transcripts api_other_languages ''dQw4w9WgXcQ'' = Inr sample_transcripts
   \<and> fst (get_transcript api_other_languages ''dQw4w9WgXcQ'' [''de'', ''fr'']) =
       HTTPException 404
         (''Could not find a transcript in the requested languages: de, fr. ''
            @ ''Available languages are: en, es'')"
proof -
  have g: "api_get_transcript api_other_languages ''dQw4w9WgXcQ'' [''de'', ''fr'']
           = Inl (NoTranscriptFound ''no transcript'')"
    by (simp add: api_other_languages_def)
  have l: "api_list_transcripts api_other_languages ''dQw4w9WgXcQ'' =
           Inr (\<lparr>language = ''English'', language_code = ''en'',
                  is_generated = False, is_translatable = True\<rparr>
                # [\<lparr>language = ''Spanish'', language_code = ''es'',
                     is_generated = True, is_translatable = False\<rparr>])"
    by (simp add: api_other_languages_def sample_transcripts_def)
  from get_transcript_lists_available_codes [OF g l] g l show ?thesis
    by (simp add: sample_transcripts_def)
qed

text \<open>
  The claim as the specification has it, every available code exactly once, fails on a
  video with a manual and an automatically generated English transcript: the detail
  names \<^verbatim>\<open>en\<close> twice.
\<close>

theorem get_transcript_duplicate_codes_counterexample:
  "fst (get_transcript api_two_english ''dQw4w9WgXcQ'' [''de'']) =
     HTTPException 404
       (''Could not find a transcript in the requested languages: de. ''
          @ ''Available languages are: en, en'')"
  by (simp add: get_transcript_def YouTubeTranscriptApi_get_transcript_def
      YouTubeTranscriptApi_list_transcripts_def api_two_english_def)

text \<open>
  Claim C1, as amended. \<open>get_transcript\<close> raises an \<^verbatim>\<open>HTTPException\<close> with status
  404 exactly when the fetch raised \<^verbatim>\<open>NoTranscriptFound\<close> and the listing
  succeeded; its detail then names the requested languages and always carries the
  available-languages clause. No run in which the listing fails ends in a 404, and the
  handler has no message that leaves the clause out.
\<close>

theorem get_transcript_404_iff:
  "fst (get_transcript api video_id languages) = HTTPException 404 d \<longleftrightarrow>
   (\<exists>m ts. api_get_transcript api video_id languages = Inl (NoTranscriptFound m)
      \<and> api_list_transcripts api video_id = Inr ts
      \<and> d = ''Could not find a transcript in the requested languages: ''
             @ join '', '' languages
             @ ''. Available languages are: '' @ join '', '' (map language_code ts))"
proof (cases rule: fetch_cases [of api video_id languages])
  case (not_found m)
  show ?thesis
  proof (cases rule: listing_cases [of api video_id])
    case (listed ts)
    then show ?thesis using not_found by (auto simp add: get_transcript_listed)
  next
    case (disabled m')
    then show ?thesis using not_found by (simp add: get_transcript_listing_disabled)
  next
    case (raised e)
    then show ?thesis using not_found by (simp add: get_transcript_listing_raises)
  qed
qed (simp_all add: get_transcript_fetched get_transcript_disabled get_transcript_unexpected)

theorem get_transcript_404_iff_witness:
  "fst (get_transcript api_other_languages ''dQw4w9WgXcQ'' [''ja'']) =
     HTTPException 404
       (''Could not find a transcript in the requested languages: ja. ''
          @ ''Available languages are: en, es'')
   \<and> fst (get_transcript api_listing_fails ''dQw4w9WgXcQ'' [''ja'']) \<noteq>
     HTTPException 404 ''Could not find a transcript in the requested languages: ja''"
  using get_transcript_404_iff [of api_other_languages "''dQw4w9WgXcQ''" "[''ja'']"
      "''Could not find a transcript in the requested languages: ja. ''
         @ ''Available languages are: en, es''"]
    get_transcript_404_iff [of api_listing_fails "''dQw4w9WgXcQ''" "[''ja'']"
      "''Could not find a transcript in the requested languages: ja''"]
  by (simp add: api_other_languages_def api_listing_fails_def sample_transcripts_def)

text \<open>
  The claim as the specification has it fails: with a fetch that finds no transcript and
  a listing that loses its connection, the handler raises no \<^verbatim>\<open>HTTPException\<close>
  at all; the exception of the listing leaves the handler.
\<close>

theorem get_transcript_listing_fails_counterexample:
  "get_transcript api_listing_fails ''dQw4w9WgXcQ'' [''en''] =
     (Propagated (OtherException ''connection reset''),
      [CallGetTranscript ''dQw4w9WgXcQ'' [''en''], CallListTranscripts ''dQw4w9WgXcQ''])"
  by (simp add: get_transcript_def YouTubeTranscriptApi_get_transcript_def
      YouTubeTranscriptApi_list_transcripts_def api_listing_fails_def)

subsection \<open>A failure that is not turned into a response\<close>

text \<open>
  Claim C2. The claim is that every failure of the library ends, in both handlers, in an
  \<^verbatim>\<open>HTTPException\<close>, hence in a JSON body with one detail string, and that no
  failure of the library leaves a handler. \<open>list_transcripts\<close> does this
  (\<open>list_transcripts_never_propagates\<close>). \<open>get_transcript\<close> does not: when the fetch
  finds no transcript and the listing is then refused by the platform, the exception of
  the listing leaves the handler, and no detail is produced.
\<close>

theorem get_transcript_listing_blocked_propagates:
  "fst (get_transcript api_listing_blocked ''jNQXAC9IVRw'' [''de'']) =
     Propagated (OtherException ''too many requests'')
   \<and> fst (list_transcripts api_listing_blocked ''jNQXAC9IVRw'') =
     HTTPException 500 ''An unexpected error occurred: too many requests''"
  by (simp add: get_transcript_def list_transcripts_def
      YouTubeTranscriptApi_get_transcript_def YouTubeTranscriptApi_list_transcripts_def
      api_listing_blocked_def unexpected_detail_def)

subsection \<open>An empty language preference\<close>

text \<open>
  Claim C7, as amended. \<open>get_transcript\<close> does not look at the language preference
  before it calls the library. With an empty preference its first call is the fetch, with
  the empty list, and the request is answered from what that fetch gives: when the fetch
  succeeds, with the dictionary of the segments (status 200).
\<close>

theorem get_transcript_empty_languages:
  "(\<exists>rest. snd (get_transcript api video_id []) = CallGetTranscript video_id [] # rest)
   \<and> (\<forall>segments. api_get_transcript api video_id [] = Inr segments \<longrightarrow>
         fst (get_transcript api video_id []) =
         Returned (PDict [(''video_id'', PStr video_id),
                          (''transcript'', PList (map PExt segments))]))"
proof (cases rule: fetch_cases [of api video_id "[]"])
  case (not_found m)
  then show ?thesis
    by (cases rule: listing_cases [of api video_id])
       (simp_all add: get_transcript_listed get_transcript_listing_disabled
        get_transcript_listing_raises)
qed (simp_all add: get_transcript_fetched get_transcript_disabled get_transcript_unexpected)

theorem get_transcript_empty_languages_witness:
  "api_get_transcript api_catalogue ''dQw4w9WgXcQ'' [] = Inr sample_segments
   \<and> hd (snd (get_transcript api_catalogue ''dQw4w9WgXcQ'' [])) =
       CallGetTranscript ''dQw4w9WgXcQ'' []
   \<and> fst (get_transcript api_catalogue ''dQw4w9WgXcQ'' []) =
       Returned (PDict [(''video_id'', PStr ''dQw4w9WgXcQ''),
                        (''transcript'', PList (map PExt sample_segments))])"
proof -
  have h: "api_get_transcript api_catalogue ''dQw4w9WgXcQ'' [] = Inr sample_segments"
    by (simp add: api_catalogue_def)
  from get_transcript_empty_languages [of api_catalogue "''dQw4w9WgXcQ''"] h
  show ?thesis by auto
qed

text \<open>
  The claim as the specification has it fails: a request with an empty language
  preference is not rejected; the library is called with the empty list and the request
  is answered with status 200.
\<close>

theorem get_transcript_empty_languages_counterexample:
  "get_transcript api_available ''dQw4w9WgXcQ'' [] =
     (Returned (PDict [(''video_id'', PStr ''dQw4w9WgXcQ''),
                       (''transcript'', PList (map PExt sample_segments))]),
      [CallGetTranscript ''dQw4w9WgXcQ'' []])"
  by (simp add: get_transcript_def YouTubeTranscriptApi_get_transcript_def
      api_available_def)

end
